theory Spec2Isabelle
  imports Main "HOL-Library.AList"
begin

section \<open>Data model of the server (server.js) and of the WHEP client (whep-client.js)\<close>

text \<open>
  The server is single threaded: every handler (a WebSocket callback, a timer, the
  continuation of an awaited promise) runs to its next suspension point without
  interleaving.  Each such run is a function from the process state to the process state.
  The clock is read by \<open>Date.now()\<close>; a run takes the reading as its argument \<open>now\<close>
  (milliseconds, an integer), every reading inside one run being the same instant.
\<close>

text \<open>\<open>appState.streamStatus\<close>: the strings 'idle', 'starting', 'active', 'error'.\<close>

datatype stream_status = Idle | Starting | Active | Error

text \<open>
  The \<open>data\<close> object of the messages that carry one.  A frame's payload is the byte
  buffer itself: the model keeps the bytes where the source keeps their base64 text.
\<close>

datatype payload =
    NoData
  | ConnectionData stream_status bool
  | StatusData stream_status bool bool
  | FrameData "string option" nat int nat nat "nat list option"
  | WaitingData string int

record message =
  mtype :: string
  content :: "string option"
  data :: payload
  timestamp :: "int option"

text \<open>\<open>JSON.stringify(message)\<close>: the text that goes on the wire, kept as a constructor.\<close>

datatype wire = JSON_stringify message

text \<open>
  An entry of \<open>appState.messages\<close>.  Its \<open>id\<close> is \<open>Date.now() + Math.random()\<close>: the clock
  reading together with the number of the random draw that was added to it.
\<close>

record history_entry =
  hid :: "int \<times> nat"
  htimestamp :: int
  htype :: string
  hcontent :: "string option"

text \<open>\<open>appState.currentStream\<close>: \<open>{id, whepUrl, startTime}\<close>.\<close>

record stream =
  stream_id :: "string option"
  stream_whepUrl :: string
  startTime :: int

text \<open>
  A subscriber's transport, a WebSocket or the object the SSE route registers: the server
  reads \<open>readyState\<close> and calls \<open>send\<close>, which returns or throws.
\<close>

record ws =
  readyState :: nat
  sendThrows :: bool

text \<open>The frame buffer handed to \<open>onFrame\<close>.\<close>

record frame =
  frameNumber :: nat
  frame_timestamp :: int
  width :: "nat option"
  height :: "nat option"
  frame_data :: "nat list option"

text \<open>
  A \<open>WHEPClient\<close> object.  \<open>peerConnection\<close> is \<open>None\<close> for \<open>null\<close>, otherwise the
  \<open>iceConnectionState\<close> of the \<open>RTCPeerConnection\<close>; a callback field is \<open>True\<close> when a
  function is installed; \<open>connecting\<close> says that the promise of \<open>connect()\<close> is pending.
\<close>

record whep_client =
  whepUrl :: string
  options_timeout :: int
  peerConnection :: "string option"
  isConnected :: bool
  onFrame :: bool
  onError :: bool
  onConnect :: bool
  onDisconnect :: bool
  connecting :: bool

datatype callback = OnConnect | OnDisconnect string | OnError string | OnFrame frame

text \<open>What \<open>setTimeout\<close> was given to run.\<close>

datatype timer_action = GenerationTimeout | CycleFirst | CyclePrompt | CycleRequest

datatype level = Info | Warn | ErrorLevel

text \<open>
  What a run does to the outside world, in order: \<open>ws.send(data)\<close> of a subscriber returned;
  a line went to the logger; the start API was called (\<open>POST /ai/stream/start\<close> with the
  prompt, quality 'high' and duration 10); \<open>connect()\<close> of the WHEP client at an address
  began its handshake with a URL; the peer connection of a client was closed; an exception
  left a handler uncaught.
\<close>

datatype effect =
    Send string wire
  | Log level string
  | StartApiCall string
  | WhepHandshake nat string
  | PeerClose nat
  | Uncaught string

text \<open>
  The process state: the fields of the singletons \<open>appState\<close> (with its \<open>frameStreamer\<close> and
  \<open>llmBot\<close>, whose \<open>cycleInterval\<close> is \<open>True\<close> while the interval is set) and
  \<open>videoGenerator\<close>, the store of \<open>WHEPClient\<close> objects (an address is an index of
  \<open>whepClients\<close>), the pending timeouts, the number of start-API calls in flight, the
  number of random draws taken for history ids, and the effects so far.
  \<open>frameStreamer.frameInterval\<close> is never assigned after the constructor, so it is left out
  together with the \<open>clearInterval\<close> of \<open>stopReceiving\<close> that it guards.
\<close>

record server =
  clients :: "(string \<times> ws) list"
  messages :: "history_entry list"
  currentStream :: "stream option"
  streamStatus :: stream_status
  lastFrameTime :: int
  generationInProgress :: bool
  hasFrames :: bool
  frameCount :: nat
  currentFrame :: "nat list option"
  currentThought :: string
  lastPrompt :: string
  cycleInterval :: bool
  currentStreamId :: "string option"
  whepConnection :: "nat option"
  generationTimeout :: "nat option"
  whepClients :: "whep_client list"
  timers :: "(nat \<times> int \<times> timer_action) list"
  nextTimer :: nat
  startCalls :: nat
  idDraws :: nat
  effects :: "effect list"

text \<open>The state after the constructors of \<open>AppState\<close>, \<open>LLMBot\<close>, \<open>FrameStreamer\<close>, \<open>VideoGenerator\<close>.\<close>

definition initial :: server where
  "initial = \<lparr> clients = [], messages = [], currentStream = None, streamStatus = Idle,
     lastFrameTime = 0, generationInProgress = False, hasFrames = False, frameCount = 0,
     currentFrame = None, currentThought = [], lastPrompt = [], cycleInterval = False,
     currentStreamId = None, whepConnection = None, generationTimeout = None,
     whepClients = [], timers = [], nextTimer = 0, startCalls = 0, idDraws = 0,
     effects = [] \<rparr>"

definition GENERATION_TIMEOUT :: int where
  "GENERATION_TIMEOUT = 10000"

definition emit :: "effect \<Rightarrow> server \<Rightarrow> server" where
  "emit e s = s\<lparr>effects := effects s @ [e]\<rparr>"

definition logger :: "level \<Rightarrow> string \<Rightarrow> server \<Rightarrow> server" where
  "logger l t s = emit (Log l t) s"

section \<open>AppState\<close>

definition removeClient :: "string \<Rightarrow> server \<Rightarrow> server" where
  "removeClient cid s =
     logger Info (''Client disconnected: '' @ cid) (s\<lparr>clients := AList.delete cid (clients s)\<rparr>)"

definition sendToClient :: "string \<Rightarrow> message \<Rightarrow> server \<Rightarrow> server" where
  "sendToClient cid m s =
     (case map_of (clients s) cid of
        None \<Rightarrow> s
      | Some w \<Rightarrow>
          if readyState w = 1 then
            (if sendThrows w
             then removeClient cid (logger ErrorLevel (''Error sending to client '' @ cid @ '':'') s)
             else emit (Send cid (JSON_stringify m)) s)
          else s)"

definition addClient :: "ws \<Rightarrow> string \<Rightarrow> server \<Rightarrow> server" where
  "addClient w cid s =
     sendToClient cid
       \<lparr> mtype = ''connection_established'', content = None,
         data = ConnectionData (streamStatus s) (currentStream s \<noteq> None), timestamp = None \<rparr>
       (logger Info (''Client connected: '' @ cid) (s\<lparr>clients := AList.update cid w (clients s)\<rparr>))"

text \<open>\<open>this.messages.slice(-50)\<close> under its guard \<open>this.messages.length > 50\<close>.\<close>

definition keep50 :: "'a list \<Rightarrow> 'a list" where
  "keep50 xs = (if 50 < length xs then drop (length xs - 50) xs else xs)"

definition stored :: "message \<Rightarrow> bool" where
  "stored m = (mtype m \<in> set [''thought'', ''prompt'', ''video_generation'', ''error''])"

definition store :: "int \<Rightarrow> message \<Rightarrow> server \<Rightarrow> server" where
  "store now m s =
     (if stored m then
        s\<lparr> messages := keep50 (messages s @
              [\<lparr> hid = (now, idDraws s), htimestamp = now, htype = mtype m, hcontent = content m \<rparr>]),
           idDraws := Suc (idDraws s) \<rparr>
      else s)"

text \<open>
  The body of \<open>this.clients.forEach\<close>: the entries are visited in insertion order, and the
  only entry a visit deletes is the one being visited.
\<close>

definition visit :: "wire \<Rightarrow> string \<times> ws \<Rightarrow> server \<Rightarrow> server" where
  "visit d p s =
     (if readyState (snd p) = 1 then
        (if sendThrows (snd p)
         then removeClient (fst p) (logger ErrorLevel (''Error sending to client '' @ fst p @ '':'') s)
         else emit (Send (fst p) d) s)
      else s)"

definition deliver :: "wire \<Rightarrow> (string \<times> ws) list \<Rightarrow> server \<Rightarrow> server" where
  "deliver d cs s = fold (visit d) cs s"

definition broadcast :: "int \<Rightarrow> message \<Rightarrow> server \<Rightarrow> server" where
  "broadcast now m s = (let s1 = store now m s in deliver (JSON_stringify m) (clients s1) s1)"

text \<open>A run of broadcast calls, each at its own instant.\<close>

fun broadcasts :: "(int \<times> message) list \<Rightarrow> server \<Rightarrow> server" where
  "broadcasts [] s = s"
| "broadcasts ((now, m) # evs) s = broadcasts evs (broadcast now m s)"

text \<open>The entries the stored messages of a run make, the first one with id draw \<open>k\<close>.\<close>

fun entries :: "nat \<Rightarrow> (int \<times> message) list \<Rightarrow> history_entry list" where
  "entries k [] = []"
| "entries k ((now, m) # evs) =
     (if stored m
      then \<lparr> hid = (now, k), htimestamp = now, htype = mtype m, hcontent = content m \<rparr> # entries (Suc k) evs
      else entries k evs)"

text \<open>The transport of a registered subscriber changes state (the socket starts to close, say).\<close>

definition transport_change :: "string \<Rightarrow> ws \<Rightarrow> server \<Rightarrow> server" where
  "transport_change cid w s =
     (if cid \<in> fst ` set (clients s) then s\<lparr>clients := AList.update cid w (clients s)\<rparr> else s)"

text \<open>The messages \<open>send\<close> delivered, in order, with the subscriber that got each.\<close>

fun sent :: "effect list \<Rightarrow> (string \<times> wire) list" where
  "sent [] = []"
| "sent (Send cid d # es) = (cid, d) # sent es"
| "sent (e # es) = sent es"

section \<open>FrameStreamer\<close>

definition stopReceiving :: "server \<Rightarrow> server" where
  "stopReceiving s = logger Info ''Stopped receiving frames'' (s\<lparr>hasFrames := False\<rparr>)"

definition hasActiveFrames :: "int \<Rightarrow> server \<Rightarrow> bool" where
  "hasActiveFrames now s = (hasFrames s \<and> now - lastFrameTime s < 5000)"

text \<open>\<open>x || d\<close> on a number that may be missing: zero and \<open>undefined\<close> give the default.\<close>

definition or_default :: "nat option \<Rightarrow> nat \<Rightarrow> nat" where
  "or_default x d = (case x of None \<Rightarrow> d | Some n \<Rightarrow> if n = 0 then d else n)"

text \<open>
  \<open>frameData.data ? frameData.data.toString('base64') : null\<close>, and the test \<open>if (frameBase64)\<close>,
  which the empty text fails.
\<close>

definition processIncomingFrame :: "frame \<Rightarrow> int \<Rightarrow> server \<Rightarrow> server" where
  "processIncomingFrame fd now s =
     (case currentStream s of
        None \<Rightarrow> s
      | Some cs \<Rightarrow>
          let s1 = s\<lparr> hasFrames := True, frameCount := Suc (frameCount s), lastFrameTime := now \<rparr>;
              frameBase64 = frame_data fd;
              s2 = (if frameBase64 \<noteq> None \<and> frameBase64 \<noteq> Some []
                    then s1\<lparr>currentFrame := frameBase64\<rparr> else s1)
          in broadcast now
               \<lparr> mtype = ''frame'', content = None,
                 data = FrameData (stream_id cs) (frameCount s2) now
                          (or_default (width fd) 1920) (or_default (height fd) 1080) frameBase64,
                 timestamp = None \<rparr> s2)"

definition sendWaitingFrame :: "int \<Rightarrow> server \<Rightarrow> server" where
  "sendWaitingFrame now s =
     (if \<not> hasActiveFrames now s
      then broadcast now
             \<lparr> mtype = ''waiting_frame'', content = None,
               data = WaitingData ''Waiting for video frames...'' now, timestamp = None \<rparr> s
      else s)"


section \<open>WHEPClient\<close>

text \<open>
  The constructor.  \<open>{timeout: options.timeout || 10000, ...options}\<close>: the spread puts a given
  timeout back over the default.
\<close>

definition new_WHEPClient :: "string \<Rightarrow> int option \<Rightarrow> whep_client" where
  "new_WHEPClient url t =
     \<lparr> whepUrl = url, options_timeout = (case t of None \<Rightarrow> 10000 | Some x \<Rightarrow> x),
       peerConnection = None, isConnected = False, onFrame = False, onError = False,
       onConnect = False, onDisconnect = False, connecting = False \<rparr>"

text \<open>
  The \<open>oniceconnectionstatechange\<close> handler of \<open>setupPeerConnectionHandlers\<close>: the client after
  it and the callbacks it called, or \<open>None\<close> when reading \<open>this.peerConnection.iceConnectionState\<close>
  throws because \<open>peerConnection\<close> is \<open>null\<close>.
\<close>

definition oniceconnectionstatechange :: "whep_client \<Rightarrow> (whep_client \<times> callback list) option" where
  "oniceconnectionstatechange c =
     (case peerConnection c of
        None \<Rightarrow> None
      | Some state \<Rightarrow>
          Some (if state = ''connected'' \<or> state = ''completed''
                then (c\<lparr>isConnected := True\<rparr>, if onConnect c then [OnConnect] else [])
                else if state = ''disconnected'' \<or> state = ''failed'' \<or> state = ''closed''
                then (c\<lparr>isConnected := False\<rparr>, if onDisconnect c then [OnDisconnect state] else [])
                else (c, [])))"

text \<open>The peer connection moves to ICE state \<open>state\<close> and fires the event.\<close>

definition ice_state_change :: "string \<Rightarrow> whep_client \<Rightarrow> (whep_client \<times> callback list) option" where
  "ice_state_change state c =
     (case peerConnection c of
        None \<Rightarrow> None
      | Some old \<Rightarrow> oniceconnectionstatechange (c\<lparr>peerConnection := Some state\<rparr>))"

text \<open>The observer over a run of ICE states: the client at the end and every callback called.\<close>

fun ice_run :: "string list \<Rightarrow> whep_client \<Rightarrow> whep_client \<times> callback list" where
  "ice_run [] c = (c, [])"
| "ice_run (state # states) c =
     (case ice_state_change state c of
        None \<Rightarrow> (c, [])
      | Some (c', cbs) \<Rightarrow> (fst (ice_run states c'), cbs @ snd (ice_run states c')))"

text \<open>The two families of ICE states the handler tells apart.\<close>

definition connected_family :: "string list" where
  "connected_family = [''connected'', ''completed'']"

definition disconnected_family :: "string list" where
  "disconnected_family = [''disconnected'', ''failed'', ''closed'']"

text \<open>What the handler calls for one ICE state, when both callbacks are installed.\<close>

definition fired :: "string \<Rightarrow> callback list" where
  "fired state =
     (if state \<in> set connected_family then [OnConnect]
      else if state \<in> set disconnected_family then [OnDisconnect state]
      else [])"

text \<open>
  The claim's count, in the spec's words: the entries of a run of states into a family of
  states, an entry being a state of the family that follows a state outside it.
\<close>

fun entries_into :: "string list \<Rightarrow> bool \<Rightarrow> string list \<Rightarrow> nat" where
  "entries_into fam inside [] = 0"
| "entries_into fam inside (state # states) =
     (if state \<in> set fam
      then (if inside then 0 else 1) + entries_into fam True states
      else entries_into fam False states)"

section \<open>Timers\<close>

text \<open>\<open>setTimeout\<close> returns the handle \<open>nextTimer s\<close>; \<open>clearTimeout\<close> of a handle that is not pending does nothing.\<close>

definition setTimeout :: "timer_action \<Rightarrow> int \<Rightarrow> int \<Rightarrow> server \<Rightarrow> server" where
  "setTimeout act delay now s =
     s\<lparr> timers := timers s @ [(nextTimer s, now + delay, act)], nextTimer := Suc (nextTimer s) \<rparr>"

definition clearTimeout :: "nat \<Rightarrow> server \<Rightarrow> server" where
  "clearTimeout t s = s\<lparr> timers := filter (\<lambda>x. fst x \<noteq> t) (timers s) \<rparr>"

section \<open>VideoGenerator\<close>

text \<open>A message \<open>{type, content, timestamp: Date.now()}\<close>.\<close>

definition text_message :: "string \<Rightarrow> string \<Rightarrow> int \<Rightarrow> message" where
  "text_message ty c now = \<lparr> mtype = ty, content = Some c, data = NoData, timestamp = Some now \<rparr>"

text \<open>The decimal text of a number in a template literal, here of \<open>response.status\<close>.\<close>

definition digit :: "nat \<Rightarrow> char" where
  "digit d = ''0123456789'' ! d"

fun decimal :: "nat \<Rightarrow> string" where
  "decimal n = (if n div 10 = 0 then [digit n] else decimal (n div 10) @ [digit (n mod 10)])"

declare decimal.simps [simp del]

text \<open>
  The settled start-API call.  \<open>fetch\<close> rejects with an error message, or resolves to a
  response with a status whose body \<open>response.json()\<close> rejects or resolves to
  \<open>{stream_id, whep_url}\<close>.  The two awaits are taken as one suspension point: nothing of
  the state is read or written between them.
\<close>

datatype start_body = BodyUnreadable string | Body string string

datatype start_reply = FetchRejected string | Response nat start_body

definition response_ok :: "nat \<Rightarrow> bool" where
  "response_ok status = (200 \<le> status \<and> status \<le> 299)"

text \<open>
  The settled \<open>WHEPClient.connect()\<close>.  Its awaits (offer, local description, POST, answer
  text, remote description) are taken as one suspension point with one outcome: the
  handshake is established, or some step threw an error with a message.
\<close>

datatype connect_reply = ConnectFailed string | ConnectOk

text \<open>The callbacks \<open>startWhepConnection\<close> installs; \<open>url\<close> is the \<open>whepUrl\<close> they close over.\<close>

definition vg_onConnect :: "string \<Rightarrow> int \<Rightarrow> server \<Rightarrow> server" where
  "vg_onConnect url now s =
     (let s1 = s\<lparr> streamStatus := Active,
                  currentStream := Some \<lparr> stream_id = currentStreamId s, stream_whepUrl = url, startTime = now \<rparr>,
                  generationInProgress := False \<rparr>;
          s2 = broadcast now
                 (text_message ''video_generation'' ''WHEP connection established, receiving video frames'' now) s1
      in logger Info ''WHEP connection established successfully'' s2)"

definition vg_onFrame :: "frame \<Rightarrow> int \<Rightarrow> server \<Rightarrow> server" where
  "vg_onFrame fd now s = processIncomingFrame fd now s"

definition vg_onError :: "string \<Rightarrow> int \<Rightarrow> server \<Rightarrow> server" where
  "vg_onError msg now s =
     (let s1 = logger ErrorLevel ''WHEP connection error:'' s;
          s2 = s1\<lparr> streamStatus := Error \<rparr>
      in broadcast now (text_message ''error'' (''WHEP connection error: '' @ msg) now) s2)"

definition vg_onDisconnect :: "string \<Rightarrow> int \<Rightarrow> server \<Rightarrow> server" where
  "vg_onDisconnect reason now s =
     (let s1 = logger Info (''WHEP disconnected: '' @ reason) s;
          s2 = stopReceiving s1;
          s3 = s2\<lparr> streamStatus := Idle \<rparr>
      in broadcast now (text_message ''video_generation'' (''Stream disconnected: '' @ reason) now) s3)"

fun run_callback :: "string \<Rightarrow> int \<Rightarrow> callback \<Rightarrow> server \<Rightarrow> server" where
  "run_callback url now OnConnect s = vg_onConnect url now s"
| "run_callback url now (OnDisconnect reason) s = vg_onDisconnect reason now s"
| "run_callback url now (OnError msg) s = vg_onError msg now s"
| "run_callback url now (OnFrame fd) s = vg_onFrame fd now s"

text \<open>\<open>WHEPClient.connect()\<close> of the client at address \<open>a\<close>, up to its first await.\<close>

definition whep_connect :: "nat \<Rightarrow> server \<Rightarrow> server" where
  "whep_connect a s =
     (if a < length (whepClients s) then
        (let c = whepClients s ! a;
             s1 = logger Info (''Connecting to WHEP endpoint: '' @ whepUrl c) s;
             s2 = s1\<lparr> whepClients := (whepClients s1)[a := c\<lparr> peerConnection := Some ''new'', connecting := True \<rparr>] \<rparr>
         in emit (WhepHandshake a (whepUrl c)) s2)
      else s)"

text \<open>\<open>WHEPClient.disconnect()\<close> of the client at address \<open>a\<close>.\<close>

definition whep_disconnect :: "nat \<Rightarrow> server \<Rightarrow> server" where
  "whep_disconnect a s =
     (if a < length (whepClients s) then
        (let c = whepClients s ! a;
             s1 = (case peerConnection c of None \<Rightarrow> s | Some state \<Rightarrow> emit (PeerClose a) s);
             s2 = s1\<lparr> whepClients := (whepClients s1)[a := c\<lparr> peerConnection := None, isConnected := False \<rparr>] \<rparr>
         in logger Info ''WHEP connection closed'' s2)
      else s)"

text \<open>\<open>startWhepConnection\<close> up to the await of \<open>connect()\<close>: the new client gets a fresh address.\<close>

definition startWhepConnection :: "string \<Rightarrow> int \<Rightarrow> server \<Rightarrow> server" where
  "startWhepConnection url now s =
     (let s1 = logger Info (''Connecting to WHEP endpoint: '' @ url) s;
          c = (new_WHEPClient url (Some GENERATION_TIMEOUT))
                \<lparr> onConnect := True, onFrame := True, onError := True, onDisconnect := True \<rparr>;
          a = length (whepClients s1);
          s2 = s1\<lparr> whepClients := whepClients s1 @ [c], whepConnection := Some a \<rparr>
      in whep_connect a s2)"

text \<open>The catch block of \<open>startWhepConnection\<close>, before it rethrows.\<close>

definition startWhepConnection_catch :: "string \<Rightarrow> int \<Rightarrow> server \<Rightarrow> server" where
  "startWhepConnection_catch msg now s =
     (let s1 = logger ErrorLevel ''WHEP connection failed:'' s;
          s2 = s1\<lparr> streamStatus := Error, generationInProgress := False \<rparr>
      in broadcast now (text_message ''error'' (''WHEP connection failed: '' @ msg) now) s2)"

text \<open>The catch block of \<open>requestGeneration\<close>.\<close>

definition requestGeneration_catch :: "string \<Rightarrow> int \<Rightarrow> server \<Rightarrow> server" where
  "requestGeneration_catch msg now s =
     (let s1 = logger ErrorLevel ''Video generation request failed:'' s;
          s2 = s1\<lparr> streamStatus := Error, generationInProgress := False \<rparr>
      in broadcast now (text_message ''error'' (''Video generation failed: '' @ msg) now) s2)"

text \<open>\<open>requestGeneration(prompt)\<close> up to the await of the start-API \<open>fetch\<close>.\<close>

definition requestGeneration :: "string \<Rightarrow> int \<Rightarrow> server \<Rightarrow> server" where
  "requestGeneration prompt now s =
     (if generationInProgress s then logger Info ''Generation already in progress, skipping'' s
      else
        (let s1 = s\<lparr> generationInProgress := True, streamStatus := Starting \<rparr>;
             s2 = broadcast now
                    (text_message ''video_generation''
                       (''Starting video generation: '' @ [CHR 0x22] @ prompt @ [CHR 0x22]) now) s1;
             s3 = logger Info (''Requesting video generation with prompt: '' @ prompt) s2;
             s4 = emit (StartApiCall prompt) s3
         in s4\<lparr> startCalls := Suc (startCalls s4) \<rparr>))"

text \<open>
  The continuation of \<open>requestGeneration\<close> when its start-API call settles, up to the await
  of \<open>startWhepConnection\<close>.  It reads no session token: whatever the state has become in
  the meantime, the reply is applied.  With no call in flight nothing resumes.
\<close>

definition requestGeneration_resume :: "start_reply \<Rightarrow> int \<Rightarrow> server \<Rightarrow> server" where
  "requestGeneration_resume r now s0 =
     (if startCalls s0 = 0 then s0
      else
        (let s = s0\<lparr> startCalls := startCalls s0 - 1 \<rparr> in
         case r of
           FetchRejected msg \<Rightarrow> requestGeneration_catch msg now s
         | Response status body \<Rightarrow>
             if \<not> response_ok status
             then requestGeneration_catch (''Video API responded with status: '' @ decimal status) now s
             else
               (case body of
                  BodyUnreadable msg \<Rightarrow> requestGeneration_catch msg now s
                | Body sid url \<Rightarrow>
                    (let s1 = s\<lparr> currentStreamId := Some sid \<rparr>;
                         s2 = logger Info (''Video generation started. Stream ID: '' @ sid @ '', WHEP URL: '' @ url) s1;
                         s3 = broadcast now
                                (text_message ''video_generation''
                                   (''Video generation initiated. Stream ID: '' @ sid) now) s2
                     in startWhepConnection url now s3))))"

text \<open>
  The continuation when \<open>connect()\<close> of the client at \<open>a\<close> settles.  A client that was
  disconnected meanwhile has \<open>peerConnection = null\<close>, and the next use of it in \<open>connect\<close>
  throws.  On success \<open>connect\<close> and \<open>startWhepConnection\<close> return and \<open>requestGeneration\<close> arms
  the generation timeout.  On failure the three catch blocks run, innermost first.
\<close>

definition whep_connect_resume :: "nat \<Rightarrow> connect_reply \<Rightarrow> int \<Rightarrow> server \<Rightarrow> server" where
  "whep_connect_resume a r now s =
     (if a < length (whepClients s) \<and> connecting (whepClients s ! a) then
        (let c = whepClients s ! a;
             s1 = s\<lparr> whepClients := (whepClients s)[a := c\<lparr> connecting := False \<rparr>] \<rparr>;
             outcome = (case peerConnection c of
                          None \<Rightarrow> ConnectFailed ''Cannot read properties of null''
                        | Some state \<Rightarrow> r)
         in case outcome of
              ConnectOk \<Rightarrow>
                (let s2 = logger Info ''WHEP connection established'' s1;
                     s3 = setTimeout GenerationTimeout GENERATION_TIMEOUT now s2
                 in s3\<lparr> generationTimeout := Some (nextTimer s2) \<rparr>)
            | ConnectFailed msg \<Rightarrow>
                (let s2 = logger ErrorLevel ''WHEP connection failed:'' s1;
                     s3 = (if onError c then vg_onError msg now s2 else s2);
                     s4 = startWhepConnection_catch msg now s3
                 in requestGeneration_catch msg now s4))
      else s)"

definition handleGenerationTimeout :: "int \<Rightarrow> server \<Rightarrow> server" where
  "handleGenerationTimeout now s =
     (let s1 = logger Warn ''Video generation timeout reached'' s;
          s2 = broadcast now
                 (text_message ''error'' ''Video generation timeout - retrying with adjusted parameters'' now) s1
      in s2\<lparr> streamStatus := Idle, generationInProgress := False, currentStreamId := None \<rparr>)"

definition stopCurrentGeneration :: "server \<Rightarrow> server" where
  "stopCurrentGeneration s =
     (let s1 = (case generationTimeout s of
                  None \<Rightarrow> s
                | Some t \<Rightarrow> (clearTimeout t s)\<lparr> generationTimeout := None \<rparr>);
          s2 = (case whepConnection s1 of
                  None \<Rightarrow> s1
                | Some a \<Rightarrow> (whep_disconnect a s1)\<lparr> whepConnection := None \<rparr>);
          s3 = stopReceiving s2;
          s4 = s3\<lparr> streamStatus := Idle, currentStream := None, currentStreamId := None,
                   generationInProgress := False \<rparr>
      in logger Info ''Video generation stopped'' s4)"

text \<open>The ICE event of the client at \<open>a\<close>, with the callbacks the handler calls run in place.\<close>

definition ice_event :: "nat \<Rightarrow> string \<Rightarrow> int \<Rightarrow> server \<Rightarrow> server" where
  "ice_event a state now s =
     (if a < length (whepClients s) then
        (case ice_state_change state (whepClients s ! a) of
           None \<Rightarrow> emit (Uncaught ''TypeError'') s
         | Some (c', cbs) \<Rightarrow>
             fold (run_callback (whepUrl c') now) cbs (s\<lparr> whepClients := (whepClients s)[a := c'] \<rparr>))
      else s)"

text \<open>
  A tick of the frame interval of \<open>simulateFrameReception\<close> for the client at \<open>a\<close>; the frame
  buffer is the media pipeline's.
\<close>

definition frame_tick :: "nat \<Rightarrow> frame \<Rightarrow> int \<Rightarrow> server \<Rightarrow> server" where
  "frame_tick a fd now s =
     (if a < length (whepClients s) then
        (let c = whepClients s ! a in
         if \<not> isConnected c \<or> \<not> onFrame c then s else vg_onFrame fd now s)
      else s)"

section \<open>LLMBot\<close>

text \<open>
  \<open>generateThought\<close> and \<open>generatePrompt\<close> pick their text with \<open>Math.random()\<close>; the picked
  text is an argument.
\<close>

definition generateThought :: "string \<Rightarrow> int \<Rightarrow> server \<Rightarrow> server" where
  "generateThought thought now s =
     (let s1 = s\<lparr> currentThought := thought \<rparr>;
          s2 = broadcast now (text_message ''thought'' thought now) s1
      in logger Info (''LLM Thought: '' @ thought) s2)"

definition generatePrompt :: "string \<Rightarrow> int \<Rightarrow> server \<Rightarrow> server" where
  "generatePrompt prompt now s =
     (let s1 = s\<lparr> lastPrompt := prompt \<rparr>;
          s2 = broadcast now (text_message ''prompt'' prompt now) s1
      in logger Info (''Generated Prompt: '' @ prompt) s2)"

text \<open>
  \<open>processCycle\<close>: the thought, then the first \<open>setTimeout(..., 2000)\<close>.  \<open>generateThought\<close>
  has no await of its own and throws nothing, so the \<open>await\<close> on it resumes in the same
  run and the \<open>catch\<close> of \<open>processCycle\<close> is never entered.
\<close>

definition processCycle :: "string \<Rightarrow> int \<Rightarrow> server \<Rightarrow> server" where
  "processCycle thought now s = setTimeout CyclePrompt 2000 now (generateThought thought now s)"

text \<open>
  The callback of the first timeout of \<open>processCycle\<close>: the prompt, the liveness test, and
  when it fails the second \<open>setTimeout(..., 2000)\<close>.
\<close>

definition cycle_prompt :: "string \<Rightarrow> int \<Rightarrow> server \<Rightarrow> server" where
  "cycle_prompt prompt now s =
     (let s1 = generatePrompt prompt now s
      in if \<not> hasActiveFrames now s1 then setTimeout CycleRequest 2000 now s1 else s1)"

text \<open>The callback of the second timeout: \<open>videoGenerator.requestGeneration(this.lastPrompt)\<close>.\<close>

definition cycle_request :: "int \<Rightarrow> server \<Rightarrow> server" where
  "cycle_request now s = requestGeneration (lastPrompt s) now s"

definition llm_start :: "int \<Rightarrow> server \<Rightarrow> server" where
  "llm_start now s =
     setTimeout CycleFirst 1000 now ((logger Info ''Starting LLM Bot cycle'' s)\<lparr> cycleInterval := True \<rparr>)"

definition llm_stop :: "server \<Rightarrow> server" where
  "llm_stop s = logger Info ''LLM Bot cycle stopped'' (s\<lparr> cycleInterval := False \<rparr>)"

text \<open>
  A pending timeout fires, at or after its due time, and leaves the table.  \<open>picked\<close> is
  the text \<open>Math.random()\<close> picks in the callbacks that generate one.
\<close>

definition fire_timer :: "nat \<Rightarrow> string \<Rightarrow> int \<Rightarrow> server \<Rightarrow> server" where
  "fire_timer t picked now s =
     (case find (\<lambda>x. fst x = t) (timers s) of
        None \<Rightarrow> s
      | Some (t', due, act) \<Rightarrow>
          if now < due then s
          else
            (let s1 = clearTimeout t s in
             case act of
               GenerationTimeout \<Rightarrow> handleGenerationTimeout now s1
             | CycleFirst \<Rightarrow> processCycle picked now s1
             | CyclePrompt \<Rightarrow> cycle_prompt picked now s1
             | CycleRequest \<Rightarrow> cycle_request now s1))"

section \<open>Client messages\<close>

text \<open>
  What \<open>JSON.parse\<close> makes of a client's text: it throws a \<open>SyntaxError\<close>, or gives
  \<open>null\<close>, or a value whose \<open>type\<close> and \<open>prompt\<close> properties the handler reads.  \<open>client_type\<close>
  is the \<open>type\<close> when it is a string (the \<open>switch\<close> compares with \<open>===\<close>); \<open>client_prompt\<close> is
  the \<open>prompt\<close>, a string when present.
\<close>

record client_data =
  client_type :: "string option"
  client_prompt :: "string option"

datatype parsed = SyntaxError string | Null | Data client_data

definition handleClientMessage :: "string \<Rightarrow> client_data \<Rightarrow> int \<Rightarrow> server \<Rightarrow> server" where
  "handleClientMessage clientId d now s =
     (if client_type d = Some ''start_generation'' then
        (case client_prompt d of
           None \<Rightarrow> s
         | Some p \<Rightarrow> if p = [] then s else requestGeneration p now s)
      else if client_type d = Some ''stop_generation'' then stopCurrentGeneration s
      else if client_type d = Some ''get_status'' then
        sendToClient clientId
          \<lparr> mtype = ''status_response'', content = None,
            data = StatusData (streamStatus s) (currentStream s \<noteq> None) (hasActiveFrames now s),
            timestamp = None \<rparr> s
      else logger Warn (''Unknown message type from client '' @ clientId @ '':'') s)"

text \<open>
  The \<open>message\<close> handler of a WebSocket: \<open>JSON.parse\<close> and \<open>handleClientMessage\<close> inside one
  \<open>try\<close>, whose \<open>catch\<close> logs.  Reading \<open>data.type\<close> of \<open>null\<close> throws into the same \<open>catch\<close>.
\<close>

definition ws_on_message :: "(string \<Rightarrow> parsed) \<Rightarrow> string \<Rightarrow> string \<Rightarrow> int \<Rightarrow> server \<Rightarrow> server" where
  "ws_on_message JSON_parse clientId raw now s =
     (case JSON_parse raw of
        SyntaxError msg \<Rightarrow> logger ErrorLevel ''Error parsing client message:'' s
      | Null \<Rightarrow> logger ErrorLevel ''Error parsing client message:'' s
      | Data d \<Rightarrow> handleClientMessage clientId d now s)"

section \<open>The event loop\<close>

text \<open>
  Everything that makes the server run a handler: a WebSocket connects, sends a message or
  closes; a transport changes state; \<open>POST /api/generate\<close> arrives; a start-API call or a
  WHEP handshake settles; a peer connection changes ICE state; the frame interval of a
  client ticks; the server starts listening (\<open>llmBot.start()\<close>); the cycle interval ticks
  (every \<open>LLM_CYCLE_INTERVAL\<close>, with the thought picked); a timeout fires; the waiting-frame
  interval ticks; SIGTERM or SIGINT arrives.
\<close>

datatype event =
    WsConnection string ws
  | WsMessage string string
  | WsClose string
  | TransportChange string ws
  | ApiGenerate string
  | StartReply start_reply
  | ConnectReply nat connect_reply
  | IceState nat string
  | FrameTick nat frame
  | Listen
  | CycleTick string
  | TimerFires nat string
  | WaitingTick
  | Signal

fun step :: "(string \<Rightarrow> parsed) \<Rightarrow> int \<times> event \<Rightarrow> server \<Rightarrow> server" where
  "step P (now, WsConnection cid w) s = addClient w cid s"
| "step P (now, WsMessage cid raw) s = ws_on_message P cid raw now s"
| "step P (now, WsClose cid) s = removeClient cid s"
| "step P (now, TransportChange cid w) s = transport_change cid w s"
| "step P (now, ApiGenerate p) s = (if p = [] then s else requestGeneration p now s)"
| "step P (now, StartReply r) s = requestGeneration_resume r now s"
| "step P (now, ConnectReply a r) s = whep_connect_resume a r now s"
| "step P (now, IceState a state) s = ice_event a state now s"
| "step P (now, FrameTick a fd) s = frame_tick a fd now s"
| "step P (now, Listen) s = llm_start now s"
| "step P (now, CycleTick thought) s = (if cycleInterval s then processCycle thought now s else s)"
| "step P (now, TimerFires t picked) s = fire_timer t picked now s"
| "step P (now, WaitingTick) s = (if \<not> hasActiveFrames now s then sendWaitingFrame now s else s)"
| "step P (now, Signal) s = stopCurrentGeneration (llm_stop s)"

definition run :: "(string \<Rightarrow> parsed) \<Rightarrow> (int \<times> event) list \<Rightarrow> server \<Rightarrow> server" where
  "run P evs s = fold (step P) evs s"

text \<open>The prompts of the start-API calls among the effects.\<close>

fun start_calls :: "effect list \<Rightarrow> string list" where
  "start_calls [] = []"
| "start_calls (StartApiCall p # es) = p # start_calls es"
| "start_calls (e # es) = start_calls es"


section \<open>Notions the properties are stated with\<close>


text \<open>Status Starting has \<open>generationInProgress\<close> set.\<close>

definition starting_inv :: "server \<Rightarrow> bool" where
  "starting_inv s = (streamStatus s = Starting \<longrightarrow> generationInProgress s)"

text \<open>The subscribers a broadcast reaches: open, and their \<open>send\<close> returns.\<close>

definition receivers :: "server \<Rightarrow> (string \<times> ws) list" where
  "receivers s = filter (\<lambda>p. readyState (snd p) = 1 \<and> \<not> sendThrows (snd p)) (clients s)"

text \<open>The history entry \<open>broadcast\<close> makes of a stored message at \<open>now\<close> in state \<open>s\<close>.\<close>

definition entry_of :: "message \<Rightarrow> int \<Rightarrow> server \<Rightarrow> history_entry" where
  "entry_of m now s = \<lparr> hid = (now, idDraws s), htimestamp = now, htype = mtype m, hcontent = content m \<rparr>"




section \<open>Concrete states and inputs of the witnesses and counterexamples\<close>

text \<open>The \<open>i\<close>-th of a run of thoughts, broadcast at time \<open>i\<close>.\<close>

definition thought_at :: "nat \<Rightarrow> int \<times> message" where
  "thought_at i =
     (int i, \<lparr> mtype = ''thought'', content = Some ''Analyzing visual aesthetics and trending motifs...'',
        data = NoData, timestamp = Some (int i) \<rparr>)"

text \<open>Transports: open; open with a \<open>send\<close> that throws; closing (\<open>readyState\<close> 2).\<close>

definition open_ws :: ws where
  "open_ws = \<lparr> readyState = 1, sendThrows = False \<rparr>"

definition throwing_ws :: ws where
  "throwing_ws = \<lparr> readyState = 1, sendThrows = True \<rparr>"

definition closing_ws :: ws where
  "closing_ws = \<lparr> readyState = 2, sendThrows = False \<rparr>"

text \<open>
  Three subscribers connect with open transports; then the send of b starts to throw and
  the socket of c starts to close.
\<close>

definition three_subscribers :: server where
  "three_subscribers =
     transport_change ''c'' closing_ws (transport_change ''b'' throwing_ws
       (addClient open_ws ''c'' (addClient open_ws ''b'' (addClient open_ws ''a'' initial))))"

definition status_msg :: message where
  "status_msg = \<lparr> mtype = ''video_generation'', content = Some ''Stream disconnected: closed'',
      data = NoData, timestamp = Some 7 \<rparr>"

definition sample_frame :: frame where
  "sample_frame = \<lparr> frameNumber = 0, frame_timestamp = 1000, width = Some 1920, height = Some 1080,
     frame_data = Some [0, 0, 0] \<rparr>"

text \<open>A WHEP client as \<open>startWhepConnection\<close> sets it up, its handshake under way.\<close>

definition handshaking_client :: whep_client where
  "handshaking_client =
     (new_WHEPClient ''http://video/whep/s1'' (Some GENERATION_TIMEOUT))
       \<lparr> peerConnection := Some ''new'', onFrame := True, onError := True, onConnect := True,
         onDisconnect := True, connecting := True \<rparr>"

text \<open>
  What \<open>JSON.parse\<close> gives on the texts the examples send: two well-formed messages,
  \<open>null\<close>, and a syntax error for the truncated text.
\<close>

definition tiny_parse :: "string \<Rightarrow> parsed" where
  \<open>tiny_parse raw =
     (if raw = ''{"type":"stop_generation"}''
      then Data \<lparr> client_type = Some ''stop_generation'', client_prompt = None \<rparr>
      else if raw = ''{"type":"get_status"}''
      then Data \<lparr> client_type = Some ''get_status'', client_prompt = None \<rparr>
      else if raw = ''null'' then Null
      else SyntaxError ''Unexpected token'')\<close>




text \<open>
  A generation that goes well: request, start reply with stream s1, handshake done, ICE
  connected.
\<close>

definition active_run :: "(int \<times> event) list" where
  "active_run =
     [(0, ApiGenerate ''neon city''),
      (100, StartReply (Response 200 (Body ''s1'' ''http://video/whep/s1''))),
      (200, ConnectReply 0 ConnectOk),
      (300, IceState 0 ''connected'')]"

definition active_state :: server where
  "active_state = run tiny_parse active_run initial"






text \<open>
  The scheduler starts; its first cycle runs at 1000 and its prompt callback at 3000, with
  no frames yet.  A request from outside then brings a stream up, which delivers a frame at
  4900.
\<close>

definition cycle_run :: "(int \<times> event) list" where
  "cycle_run =
     [(0, Listen),
      (1000, TimerFires 0 ''Analyzing visual aesthetics and trending motifs...''),
      (3000, TimerFires 1 ''Dynamic movement in a forest''),
      (3100, ApiGenerate ''neon city''),
      (3200, StartReply (Response 200 (Body ''s1'' ''http://video/whep/s1''))),
      (3300, ConnectReply 0 ConnectOk),
      (3400, IceState 0 ''connected''),
      (4900, FrameTick 0 sample_frame)]"

definition cycle_state :: server where
  "cycle_state = run tiny_parse cycle_run initial"

section \<open>Properties of the hub and of the frame streamer\<close>

lemma effects_emit: "effects (emit e s) = effects s @ [e]"
  by (simp add: emit_def)

lemma keep50_drop: "keep50 xs = drop (length xs - 50) xs"
  by (simp add: keep50_def)

lemma keep50_rev: "keep50 xs = rev (take 50 (rev xs))"
  by (simp add: keep50_drop take_rev)

lemma keep50_keep50_append: "keep50 (keep50 xs @ ys) = keep50 (xs @ ys)"
  by (simp add: keep50_rev min_def)

lemma length_keep50: "length (keep50 xs) \<le> 50"
  by (simp add: keep50_rev)

lemma keep50_short: "length xs \<le> 50 \<Longrightarrow> keep50 xs = xs"
  by (simp add: keep50_def)

lemma keep50_append_long: "50 \<le> length ys \<Longrightarrow> keep50 (xs @ ys) = drop (length ys - 50) ys"
  by (simp add: keep50_drop)

lemma messages_emit: "messages (emit e s) = messages s"
  by (simp add: emit_def)

lemma messages_removeClient: "messages (removeClient c s) = messages s"
  by (simp add: removeClient_def logger_def emit_def)

lemma idDraws_removeClient: "idDraws (removeClient c s) = idDraws s"
  by (simp add: removeClient_def logger_def emit_def)

lemma visit_frame:
  "messages (visit d p s) = messages s" "idDraws (visit d p s) = idDraws s"
  "hasFrames (visit d p s) = hasFrames s" "lastFrameTime (visit d p s) = lastFrameTime s"
  by (simp_all add: visit_def removeClient_def logger_def emit_def)

lemma deliver_frame:
  "messages (deliver d cs s) = messages s \<and> idDraws (deliver d cs s) = idDraws s \<and>
   hasFrames (deliver d cs s) = hasFrames s \<and> lastFrameTime (deliver d cs s) = lastFrameTime s"
  unfolding deliver_def by (induction cs arbitrary: s) (simp_all add: visit_frame)

lemmas messages_deliver = deliver_frame [THEN conjunct1]
lemmas idDraws_deliver = deliver_frame [THEN conjunct2, THEN conjunct1]
lemmas hasFrames_deliver = deliver_frame [THEN conjunct2, THEN conjunct2, THEN conjunct1]
lemmas lastFrameTime_deliver = deliver_frame [THEN conjunct2, THEN conjunct2, THEN conjunct2]

lemma messages_broadcast:
  "messages (broadcast now m s) =
     (if stored m then keep50 (messages s @ [\<lparr> hid = (now, idDraws s), htimestamp = now, htype = mtype m, hcontent = content m \<rparr>])
      else messages s)"
  by (simp add: broadcast_def Let_def messages_deliver store_def)

lemma idDraws_broadcast:
  "idDraws (broadcast now m s) = (if stored m then Suc (idDraws s) else idDraws s)"
  by (simp add: broadcast_def Let_def idDraws_deliver store_def)

lemma messages_broadcasts:
  "length (messages s) \<le> 50 \<Longrightarrow>
   messages (broadcasts evs s) = keep50 (messages s @ entries (idDraws s) evs)"
proof (induction evs arbitrary: s)
  case Nil
  then show ?case by (simp add: keep50_short)
next
  case (Cons ev evs)
  obtain now m where ev: "ev = (now, m)" by (cases ev)
  show ?case
  proof (cases "stored m")
    case True
    have "length (messages (broadcast now m s)) \<le> 50"
      by (simp add: messages_broadcast True length_keep50)
    from Cons.IH [OF this] show ?thesis
      using True by (simp add: ev messages_broadcast idDraws_broadcast keep50_keep50_append)
  next
    case False
    have "length (messages (broadcast now m s)) \<le> 50"
      using Cons.prems by (simp add: messages_broadcast False)
    from Cons.IH [OF this] show ?thesis
      using False by (simp add: ev messages_broadcast idDraws_broadcast)
  qed
qed

lemma length_entries: "length (entries k evs) = length (filter (\<lambda>ev. stored (snd ev)) evs)"
  by (induction k evs rule: entries.induct) simp_all

text \<open>
  C6 (history bound).  Starting from a history of at most 50 entries (the initial one is
  empty), after any run of broadcast calls the history has at most 50 entries; and when
  more than 50 of the broadcast messages are of a stored type (thought, prompt,
  video_generation, error), the history has exactly 50 entries, namely the entries of the
  50 most recent stored messages in broadcast order.
\<close>

theorem history_bound:
  "length (messages s) \<le> 50 \<Longrightarrow>
   length (messages (broadcasts evs s)) \<le> 50 \<and>
   (50 < length (filter (\<lambda>ev. stored (snd ev)) evs) \<longrightarrow>
      length (messages (broadcasts evs s)) = 50 \<and>
      messages (broadcasts evs s) =
        drop (length (filter (\<lambda>ev. stored (snd ev)) evs) - 50) (entries (idDraws s) evs))"
proof -
  assume a: "length (messages s) \<le> 50"
  have m: "messages (broadcasts evs s) = keep50 (messages s @ entries (idDraws s) evs)"
    by (rule messages_broadcasts [OF a])
  show ?thesis
    by (simp add: m length_keep50 keep50_append_long length_entries)
qed

lemma clients_visit:
  "clients (visit d p s) =
     (if readyState (snd p) = 1 \<and> sendThrows (snd p)
      then filter (\<lambda>q. fst q \<noteq> fst p) (clients s) else clients s)"
  by (auto simp: visit_def removeClient_def logger_def emit_def AList.delete_eq intro: filter_cong)

lemma clients_deliver:
  "clients (deliver d cs s) =
     filter (\<lambda>p. fst p \<notin> fst ` {q \<in> set cs. readyState (snd q) = 1 \<and> sendThrows (snd q)}) (clients s)"
  unfolding deliver_def
proof (induction cs arbitrary: s)
  case Nil
  then show ?case by simp
next
  case (Cons c cs)
  show ?case
    by (auto simp: Cons clients_visit image_iff intro!: filter_cong)
qed

lemma sent_append: "sent (xs @ ys) = sent xs @ sent ys"
  by (induction xs rule: sent.induct) simp_all

lemma sent_visit:
  "sent (effects (visit d p s)) =
     sent (effects s) @ (if readyState (snd p) = 1 \<and> \<not> sendThrows (snd p) then [(fst p, d)] else [])"
  by (simp add: visit_def removeClient_def logger_def emit_def sent_append)

lemma sent_deliver:
  "sent (effects (deliver d cs s)) =
     sent (effects s) @ map (\<lambda>p. (fst p, d)) (filter (\<lambda>p. readyState (snd p) = 1 \<and> \<not> sendThrows (snd p)) cs)"
  unfolding deliver_def by (induction cs arbitrary: s) (simp_all add: sent_visit)

lemma filter_distinct_keys:
  "distinct (map fst cs) \<Longrightarrow>
   filter (\<lambda>p. fst p \<notin> fst ` {q \<in> set cs. P (snd q)}) cs = filter (\<lambda>p. \<not> P (snd p)) cs"
  apply (rule filter_cong [OF refl])
  apply (auto simp: image_iff)
  apply (metis eq_key_imp_eq_value prod.collapse)
  done

text \<open>
  C5 (delivery isolation), as the code has it.  A broadcast removes from the registry
  exactly the subscribers that are open and whose send throws, and it delivers the one
  serialised message, in registry order, to exactly the subscribers that are open and whose
  send returns.  A subscriber whose transport is not open is skipped and stays registered.
\<close>

theorem delivery_isolation:
  "distinct (map fst (clients s)) \<Longrightarrow>
   clients (broadcast now m s) =
     filter (\<lambda>p. \<not> (readyState (snd p) = 1 \<and> sendThrows (snd p))) (clients s) \<and>
   sent (effects (broadcast now m s)) =
     sent (effects s) @
     map (\<lambda>p. (fst p, JSON_stringify m))
       (filter (\<lambda>p. readyState (snd p) = 1 \<and> \<not> sendThrows (snd p)) (clients s))"
proof -
  assume d: "distinct (map fst (clients s))"
  have cs: "clients (store now m s) = clients s" and es: "effects (store now m s) = effects s"
    by (simp_all add: store_def)
  have "clients (broadcast now m s) =
      filter (\<lambda>p. fst p \<notin> fst ` {q \<in> set (clients s). readyState (snd q) = 1 \<and> sendThrows (snd q)})
        (clients s)"
    by (simp only: broadcast_def Let_def clients_deliver cs)
  also have "\<dots> = filter (\<lambda>p. \<not> (readyState (snd p) = 1 \<and> sendThrows (snd p))) (clients s)"
    by (rule filter_distinct_keys [OF d])
  finally have a: "clients (broadcast now m s) =
      filter (\<lambda>p. \<not> (readyState (snd p) = 1 \<and> sendThrows (snd p))) (clients s)" .
  have b: "sent (effects (broadcast now m s)) =
     sent (effects s) @
     map (\<lambda>p. (fst p, JSON_stringify m))
       (filter (\<lambda>p. readyState (snd p) = 1 \<and> \<not> sendThrows (snd p)) (clients s))"
    by (simp only: broadcast_def Let_def sent_deliver cs es)
  from a b show ?thesis by (rule conjI)
qed

text \<open>
  C9 (liveness threshold).  While the liveness flag is set, \<open>hasActiveFrames\<close> is true exactly
  when \<open>now - lastFrameTime < 5000\<close>.  In particular, after a frame was processed at time \<open>T\<close>
  for a current stream, it is true exactly for \<open>now < T + 5000\<close> and false at \<open>now = T + 5000\<close>.
\<close>

theorem liveness_threshold:
  "(hasFrames s \<longrightarrow> hasActiveFrames now s = (now - lastFrameTime s < 5000)) \<and>
   (currentStream s \<noteq> None \<longrightarrow>
      hasActiveFrames now (processIncomingFrame fd T s) = (now < T + 5000) \<and>
      \<not> hasActiveFrames (T + 5000) (processIncomingFrame fd T s))"
  by (auto simp: hasActiveFrames_def processIncomingFrame_def Let_def broadcast_def store_def stored_def
        hasFrames_deliver lastFrameTime_deliver split: option.splits)


lemma three_subscribers_clients:
  "clients three_subscribers = [(''a'', open_ws), (''b'', throwing_ws), (''c'', closing_ws)]"
  by (simp add: three_subscribers_def transport_change_def addClient_def sendToClient_def
      logger_def emit_def initial_def open_ws_def)

text \<open>
  C6, witness: 51 thoughts broadcast from the initial state leave the entries of the last 50.
\<close>

theorem history_bound_witness:
  "length (messages initial) \<le> 50 \<and>
   50 < length (filter (\<lambda>ev. stored (snd ev)) (map thought_at [0..<51])) \<and>
   length (messages (broadcasts (map thought_at [0..<51]) initial)) = 50 \<and>
   messages (broadcasts (map thought_at [0..<51]) initial) = drop 1 (entries 0 (map thought_at [0..<51]))"
proof -
  have a: "length (messages initial) \<le> 50" by (simp add: initial_def)
  have b: "length (filter (\<lambda>ev. stored (snd ev)) (map thought_at [0..<51])) = 51"
    by (simp add: filter_map comp_def thought_at_def stored_def)
  have c: "idDraws initial = 0" by (simp add: initial_def)
  have gt: "50 < length (filter (\<lambda>ev. stored (snd ev)) (map thought_at [0..<51]))"
    unfolding b by simp
  from history_bound [OF a, of "map thought_at [0..<51]"] gt
  have h: "length (messages (broadcasts (map thought_at [0..<51]) initial)) = 50 \<and>
      messages (broadcasts (map thought_at [0..<51]) initial) =
        drop (length (filter (\<lambda>ev. stored (snd ev)) (map thought_at [0..<51])) - 50)
          (entries (idDraws initial) (map thought_at [0..<51]))"
    by blast
  have e: "(51::nat) - 50 = 1" by simp
  from h have "length (messages (broadcasts (map thought_at [0..<51]) initial)) = 50 \<and>
      messages (broadcasts (map thought_at [0..<51]) initial) = drop 1 (entries 0 (map thought_at [0..<51]))"
    unfolding b c e .
  with a gt show ?thesis by blast
qed

text \<open>
  C5, witness: of three subscribers, one open, one throwing and one closing, the first gets
  the message, the second is removed and the third stays.
\<close>

theorem delivery_isolation_witness:
  "distinct (map fst (clients three_subscribers)) \<and>
   clients (broadcast 7 status_msg three_subscribers) = [(''a'', open_ws), (''c'', closing_ws)] \<and>
   sent (effects (broadcast 7 status_msg three_subscribers)) =
     sent (effects three_subscribers) @ [(''a'', JSON_stringify status_msg)]"
proof -
  have d: "distinct (map fst (clients three_subscribers))"
    by (simp add: three_subscribers_clients)
  show ?thesis
    using delivery_isolation [OF d, of 7 status_msg] d
    by (simp add: three_subscribers_clients open_ws_def throwing_ws_def closing_ws_def)
qed

text \<open>
  C5, counterexample to the claim as stated: a subscriber whose transport reports a state
  other than open is still registered after the broadcast.
\<close>

theorem closed_subscriber_stays_registered:
  "map_of (clients three_subscribers) ''c'' = Some closing_ws \<and> readyState closing_ws \<noteq> 1 \<and>
   map_of (clients (broadcast 7 status_msg three_subscribers)) ''c'' = Some closing_ws"
  by (simp add: broadcast_def Let_def store_def deliver_def visit_def three_subscribers_clients
      removeClient_def logger_def emit_def open_ws_def throwing_ws_def closing_ws_def)

section \<open>Properties of the WHEP client and of the message handler\<close>

lemma families:
  "(state = ''connected'' \<or> state = ''completed'') = (state \<in> set connected_family)"
  "(state = ''disconnected'' \<or> state = ''failed'' \<or> state = ''closed'') = (state \<in> set disconnected_family)"
  by (simp_all add: connected_family_def disconnected_family_def)

lemma families_disjoint: "state \<in> set connected_family \<Longrightarrow> state \<notin> set disconnected_family"
  by (auto simp: connected_family_def disconnected_family_def)

lemma ice_state_change_installed:
  "peerConnection c \<noteq> None \<Longrightarrow> onConnect c \<Longrightarrow> onDisconnect c \<Longrightarrow>
   \<exists>c'. ice_state_change state c = Some (c', fired state) \<and> peerConnection c' \<noteq> None \<and>
        onConnect c' \<and> onDisconnect c' \<and>
        isConnected c' =
          (if state \<in> set connected_family then True
           else if state \<in> set disconnected_family then False
           else isConnected c)"
  by (auto simp: ice_state_change_def oniceconnectionstatechange_def fired_def families)

lemma ice_run_installed:
  "peerConnection c \<noteq> None \<Longrightarrow> onConnect c \<Longrightarrow> onDisconnect c \<Longrightarrow>
   snd (ice_run states c) = concat (map fired states) \<and>
   peerConnection (fst (ice_run states c)) \<noteq> None \<and>
   onConnect (fst (ice_run states c)) \<and> onDisconnect (fst (ice_run states c))"
proof (induction states arbitrary: c)
  case Nil
  then show ?case by simp
next
  case (Cons state states)
  from ice_state_change_installed [OF Cons.prems, of state]
  obtain c' where c': "ice_state_change state c = Some (c', fired state)"
    "peerConnection c' \<noteq> None" "onConnect c'" "onDisconnect c'" by blast
  from Cons.IH [OF c'(2-4)] c'(1) show ?case by simp
qed

lemma ice_run_append:
  "peerConnection c \<noteq> None \<Longrightarrow> onConnect c \<Longrightarrow> onDisconnect c \<Longrightarrow>
   ice_run (xs @ ys) c =
     (fst (ice_run ys (fst (ice_run xs c))), snd (ice_run xs c) @ snd (ice_run ys (fst (ice_run xs c))))"
proof (induction xs arbitrary: c)
  case Nil
  then show ?case by simp
next
  case (Cons state states)
  from ice_state_change_installed [OF Cons.prems, of state]
  obtain c' where c': "ice_state_change state c = Some (c', fired state)"
    "peerConnection c' \<noteq> None" "onConnect c'" "onDisconnect c'" by blast
  from Cons.IH [OF c'(2-4)] c'(1) show ?case by simp
qed

text \<open>
  C8 (connectivity callbacks), as the code has it.  With a peer connection and both callbacks
  installed, the observer calls \<open>onConnect\<close> once for every ICE state-change event whose new
  state is connected or completed, and \<open>onDisconnect(state)\<close> once for every event whose new
  state is disconnected, failed or closed, and nothing for any other state.  An event of the
  first family sets the connected flag and one of the second resets it, so a later event
  with state connected calls \<open>onConnect\<close> again.
\<close>

theorem ice_callbacks:
  "peerConnection c \<noteq> None \<Longrightarrow> onConnect c \<Longrightarrow> onDisconnect c \<Longrightarrow>
   snd (ice_run states c) = concat (map fired states) \<and>
   (state \<in> set connected_family \<longrightarrow>
      isConnected (fst (ice_run (states @ [state]) c)) \<and>
      snd (ice_run (states @ [state]) c) = snd (ice_run states c) @ [OnConnect]) \<and>
   (state \<in> set disconnected_family \<longrightarrow>
      \<not> isConnected (fst (ice_run (states @ [state]) c)) \<and>
      snd (ice_run (states @ [state]) c) = snd (ice_run states c) @ [OnDisconnect state])"
proof -
  assume a: "peerConnection c \<noteq> None" "onConnect c" "onDisconnect c"
  let ?d = "fst (ice_run states c)"
  from ice_run_installed [OF a, of states]
  have d: "peerConnection ?d \<noteq> None" "onConnect ?d" "onDisconnect ?d"
    and cbs: "snd (ice_run states c) = concat (map fired states)" by simp_all
  from ice_state_change_installed [OF d, of state]
  obtain c' where c': "ice_state_change state ?d = Some (c', fired state)"
    and conn: "isConnected c' =
          (if state \<in> set connected_family then True
           else if state \<in> set disconnected_family then False
           else isConnected ?d)" by blast
  have r: "ice_run (states @ [state]) c = (c', snd (ice_run states c) @ fired state)"
    by (simp add: ice_run_append [OF a] c')
  have up: "state \<in> set connected_family \<longrightarrow>
      isConnected (fst (ice_run (states @ [state]) c)) \<and>
      snd (ice_run (states @ [state]) c) = snd (ice_run states c) @ [OnConnect]"
    by (simp add: r conn fired_def)
  have down: "state \<in> set disconnected_family \<longrightarrow>
      \<not> isConnected (fst (ice_run (states @ [state]) c)) \<and>
      snd (ice_run (states @ [state]) c) = snd (ice_run states c) @ [OnDisconnect state]"
    using families_disjoint [of state] by (auto simp: r conn fired_def)
  from cbs up down show ?thesis by (intro conjI)
qed

lemma start_calls_append: "start_calls (xs @ ys) = start_calls xs @ start_calls ys"
  by (induction xs rule: start_calls.induct) simp_all

text \<open>
  C8, witness: checking, connected, failed, connected calls \<open>onConnect\<close>, \<open>onDisconnect('failed')\<close>
  and \<open>onConnect\<close> again.
\<close>

theorem ice_callbacks_witness:
  "peerConnection handshaking_client \<noteq> None \<and> onConnect handshaking_client \<and> onDisconnect handshaking_client \<and>
   ''connected'' \<in> set connected_family \<and> ''failed'' \<in> set disconnected_family \<and>
   snd (ice_run [''checking'', ''connected'', ''failed'', ''connected''] handshaking_client) =
     [OnConnect, OnDisconnect ''failed'', OnConnect] \<and>
   isConnected (fst (ice_run ([''checking''] @ [''connected'']) handshaking_client)) \<and>
   \<not> isConnected (fst (ice_run ([''checking'', ''connected''] @ [''failed'']) handshaking_client))"
proof -
  have a: "peerConnection handshaking_client \<noteq> None" "onConnect handshaking_client"
    "onDisconnect handshaking_client"
    by (simp_all add: handshaking_client_def new_WHEPClient_def)
  have m: "''connected'' \<in> set connected_family" "''failed'' \<in> set disconnected_family"
    by (simp_all add: connected_family_def disconnected_family_def)
  have f: "concat (map fired [''checking'', ''connected'', ''failed'', ''connected'']) =
      [OnConnect, OnDisconnect ''failed'', OnConnect]"
    by (simp add: fired_def connected_family_def disconnected_family_def)
  have r1: "snd (ice_run [''checking'', ''connected'', ''failed'', ''connected''] handshaking_client) =
     [OnConnect, OnDisconnect ''failed'', OnConnect]"
    using ice_callbacks [OF a, of "[''checking'', ''connected'', ''failed'', ''connected'']" "''connected''"]
    by (simp only: f)
  have r2: "isConnected (fst (ice_run ([''checking''] @ [''connected'']) handshaking_client))"
    using ice_callbacks [OF a, of "[''checking'']" "''connected''"] m by blast
  have r3: "\<not> isConnected (fst (ice_run ([''checking'', ''connected''] @ [''failed'']) handshaking_client))"
    using ice_callbacks [OF a, of "[''checking'', ''connected'']" "''failed''"] m by blast
  from a m r1 r2 r3 show ?thesis by (intro conjI)
qed

text \<open>
  C8, counterexample to the claim as stated: the usual progression checking, connected,
  completed enters the connected family once and calls \<open>onConnect\<close> twice; disconnected,
  failed, closed enters the other family once and calls \<open>onDisconnect\<close> three times.
\<close>

theorem onConnect_fires_per_state:
  "snd (ice_run [''checking'', ''connected'', ''completed''] handshaking_client) = [OnConnect, OnConnect] \<and>
   entries_into connected_family False [''checking'', ''connected'', ''completed''] = 1 \<and>
   snd (ice_run [''disconnected'', ''failed'', ''closed'']
          (fst (ice_run [''checking'', ''connected'', ''completed''] handshaking_client))) =
     [OnDisconnect ''disconnected'', OnDisconnect ''failed'', OnDisconnect ''closed''] \<and>
   entries_into disconnected_family False [''disconnected'', ''failed'', ''closed''] = 1"
  by (simp add: handshaking_client_def new_WHEPClient_def ice_state_change_def
      oniceconnectionstatechange_def connected_family_def disconnected_family_def)

text \<open>
  C10 (malformed client messages are inert).  When \<open>JSON.parse\<close> throws on a client's
  message, the handler changes nothing but the log: the state is the old one with one log
  entry added, so the subscriber stays registered, nothing is sent and no start-API call is
  made.
\<close>

theorem malformed_message_inert:
  "JSON_parse raw = SyntaxError msg \<Longrightarrow>
   ws_on_message JSON_parse cid raw now s =
     s\<lparr> effects := effects s @ [Log ErrorLevel ''Error parsing client message:''] \<rparr> \<and>
   clients (ws_on_message JSON_parse cid raw now s) = clients s \<and>
   sent (effects (ws_on_message JSON_parse cid raw now s)) = sent (effects s) \<and>
   start_calls (effects (ws_on_message JSON_parse cid raw now s)) = start_calls (effects s)"
  by (simp add: ws_on_message_def logger_def emit_def sent_append start_calls_append)

text \<open>
  C10, witness: a truncated message from subscriber b leaves the three subscribers as they were.
\<close>

theorem malformed_message_inert_witness:
  \<open>tiny_parse ''{"type":"stop_generation"'' = SyntaxError ''Unexpected token'' \<and>
   ws_on_message tiny_parse ''b'' ''{"type":"stop_generation"'' 9 three_subscribers =
     three_subscribers\<lparr> effects := effects three_subscribers @ [Log ErrorLevel ''Error parsing client message:''] \<rparr>\<close>
proof -
  have a: \<open>tiny_parse ''{"type":"stop_generation"'' = SyntaxError ''Unexpected token''\<close>
    by (simp add: tiny_parse_def)
  have b: "ws_on_message tiny_parse ''b'' ''{\"type\":\"stop_generation\"'' 9 three_subscribers =
     three_subscribers\<lparr> effects := effects three_subscribers @ [Log ErrorLevel ''Error parsing client message:''] \<rparr>"
    using malformed_message_inert [of tiny_parse _ _ "''b''" 9 three_subscribers, OF a] by (rule conjunct1)
  from a b show ?thesis by (rule conjI)
qed

section \<open>Fields that a broadcast leaves alone, and an invariant of the event loop\<close>

lemma visit_rest:
  "currentStream (visit d p s) = currentStream s"
  "streamStatus (visit d p s) = streamStatus s"
  "generationInProgress (visit d p s) = generationInProgress s"
  "frameCount (visit d p s) = frameCount s"
  "currentFrame (visit d p s) = currentFrame s"
  "currentThought (visit d p s) = currentThought s"
  "lastPrompt (visit d p s) = lastPrompt s"
  "cycleInterval (visit d p s) = cycleInterval s"
  "currentStreamId (visit d p s) = currentStreamId s"
  "whepConnection (visit d p s) = whepConnection s"
  "generationTimeout (visit d p s) = generationTimeout s"
  "whepClients (visit d p s) = whepClients s"
  "timers (visit d p s) = timers s"
  "nextTimer (visit d p s) = nextTimer s"
  "startCalls (visit d p s) = startCalls s"
  "start_calls (effects (visit d p s)) = start_calls (effects s)"
  by (simp_all add: visit_def removeClient_def logger_def emit_def start_calls_append)

lemma deliver_rest:
  "currentStream (deliver d cs s) = currentStream s \<and>
   streamStatus (deliver d cs s) = streamStatus s \<and>
   generationInProgress (deliver d cs s) = generationInProgress s \<and>
   frameCount (deliver d cs s) = frameCount s \<and>
   currentFrame (deliver d cs s) = currentFrame s \<and>
   currentThought (deliver d cs s) = currentThought s \<and>
   lastPrompt (deliver d cs s) = lastPrompt s \<and>
   cycleInterval (deliver d cs s) = cycleInterval s \<and>
   currentStreamId (deliver d cs s) = currentStreamId s \<and>
   whepConnection (deliver d cs s) = whepConnection s \<and>
   generationTimeout (deliver d cs s) = generationTimeout s \<and>
   whepClients (deliver d cs s) = whepClients s \<and>
   timers (deliver d cs s) = timers s \<and>
   nextTimer (deliver d cs s) = nextTimer s \<and>
   startCalls (deliver d cs s) = startCalls s \<and>
   start_calls (effects (deliver d cs s)) = start_calls (effects s)"
  unfolding deliver_def by (induction cs arbitrary: s) (simp_all add: visit_rest)

lemma broadcast_rest:
  "currentStream (broadcast now m s) = currentStream s"
  "streamStatus (broadcast now m s) = streamStatus s"
  "generationInProgress (broadcast now m s) = generationInProgress s"
  "frameCount (broadcast now m s) = frameCount s"
  "currentFrame (broadcast now m s) = currentFrame s"
  "currentThought (broadcast now m s) = currentThought s"
  "lastPrompt (broadcast now m s) = lastPrompt s"
  "cycleInterval (broadcast now m s) = cycleInterval s"
  "currentStreamId (broadcast now m s) = currentStreamId s"
  "whepConnection (broadcast now m s) = whepConnection s"
  "generationTimeout (broadcast now m s) = generationTimeout s"
  "whepClients (broadcast now m s) = whepClients s"
  "timers (broadcast now m s) = timers s"
  "nextTimer (broadcast now m s) = nextTimer s"
  "startCalls (broadcast now m s) = startCalls s"
  "start_calls (effects (broadcast now m s)) = start_calls (effects s)"
  "hasFrames (broadcast now m s) = hasFrames s"
  "lastFrameTime (broadcast now m s) = lastFrameTime s"
  by (simp_all add: broadcast_def Let_def deliver_rest deliver_frame store_def)



lemma requestGeneration_accept:
  "\<not> generationInProgress s \<Longrightarrow>
   generationInProgress (requestGeneration p now s) \<and>
   streamStatus (requestGeneration p now s) = Starting \<and>
   start_calls (effects (requestGeneration p now s)) = start_calls (effects s) @ [p]"
  by (simp add: requestGeneration_def Let_def logger_def emit_def broadcast_rest start_calls_append)


lemma inv_emit: "starting_inv (emit e s) = starting_inv s"
  by (simp add: starting_inv_def emit_def)

lemma inv_logger: "starting_inv (logger l x s) = starting_inv s"
  by (simp add: logger_def inv_emit)

lemma inv_broadcast: "starting_inv (broadcast now m s) = starting_inv s"
  by (simp add: starting_inv_def broadcast_rest)

lemma inv_fields:
  "starting_inv (s\<lparr> clients := a \<rparr>) = starting_inv s"
  "starting_inv (s\<lparr> whepClients := b \<rparr>) = starting_inv s"
  "starting_inv (s\<lparr> timers := c \<rparr>) = starting_inv s"
  "starting_inv (s\<lparr> nextTimer := d \<rparr>) = starting_inv s"
  "starting_inv (s\<lparr> startCalls := e \<rparr>) = starting_inv s"
  "starting_inv (s\<lparr> currentStreamId := f \<rparr>) = starting_inv s"
  "starting_inv (s\<lparr> whepConnection := g \<rparr>) = starting_inv s"
  "starting_inv (s\<lparr> generationTimeout := h \<rparr>) = starting_inv s"
  "starting_inv (s\<lparr> hasFrames := i \<rparr>) = starting_inv s"
  "starting_inv (s\<lparr> frameCount := j \<rparr>) = starting_inv s"
  "starting_inv (s\<lparr> lastFrameTime := k \<rparr>) = starting_inv s"
  "starting_inv (s\<lparr> currentFrame := l \<rparr>) = starting_inv s"
  "starting_inv (s\<lparr> currentThought := m \<rparr>) = starting_inv s"
  "starting_inv (s\<lparr> lastPrompt := n \<rparr>) = starting_inv s"
  "starting_inv (s\<lparr> cycleInterval := q \<rparr>) = starting_inv s"
  "starting_inv (s\<lparr> currentStream := r \<rparr>) = starting_inv s"
  by (simp_all add: starting_inv_def)

lemma inv_not_starting:
  "x \<noteq> Starting \<Longrightarrow> starting_inv (s\<lparr> streamStatus := x, generationInProgress := y \<rparr>)"
  "x \<noteq> Starting \<Longrightarrow> starting_inv (s\<lparr> streamStatus := x \<rparr>)"
  by (simp_all add: starting_inv_def)




lemma inv_stopReceiving: "starting_inv (stopReceiving s) = starting_inv s"
  by (simp add: stopReceiving_def inv_logger inv_fields)



lemma inv_whep_catch: "starting_inv (startWhepConnection_catch msg now s)"
  by (simp add: startWhepConnection_catch_def Let_def inv_broadcast inv_not_starting)






















section \<open>Single flight\<close>

lemmas handler_defs =
  requestGeneration_def requestGeneration_resume_def requestGeneration_catch_def
  startWhepConnection_def startWhepConnection_catch_def whep_connect_def whep_connect_resume_def
  whep_disconnect_def stopCurrentGeneration_def handleGenerationTimeout_def
  vg_onConnect_def vg_onDisconnect_def vg_onError_def vg_onFrame_def ice_event_def
  ice_state_change_def oniceconnectionstatechange_def frame_tick_def processIncomingFrame_def
  fire_timer_def processCycle_def cycle_prompt_def cycle_request_def generateThought_def
  generatePrompt_def llm_start_def llm_stop_def setTimeout_def clearTimeout_def
  broadcast_def store_def stored_def deliver_def visit_def logger_def emit_def
  text_message_def new_WHEPClient_def response_ok_def GENERATION_TIMEOUT_def hasActiveFrames_def
  stopReceiving_def or_default_def Let_def

lemma active_state_fields:
  "streamStatus active_state = Active"
  "generationInProgress active_state = False"
  "currentStream active_state =
     Some \<lparr> stream_id = Some ''s1'', stream_whepUrl = ''http://video/whep/s1'', startTime = 300 \<rparr>"
  "timers active_state = [(0, 10200, GenerationTimeout)]"
  "generationTimeout active_state = Some 0"
  "start_calls (effects active_state) = [''neon city'']"
  "clients active_state = []"
  "whepConnection active_state = Some 0"
  by (simp_all add: active_state_def active_run_def run_def initial_def handler_defs)





section \<open>Start-API replies\<close>














section \<open>The generation timeout and the prompt cycle\<close>







lemma clearTimeout_fields:
  "timers (clearTimeout t s) = filter (\<lambda>x. fst x \<noteq> t) (timers s)"
  "effects (clearTimeout t s) = effects s"
  "messages (clearTimeout t s) = messages s"
  "receivers (clearTimeout t s) = receivers s"
  "entry_of m now (clearTimeout t s) = entry_of m now s"
  by (simp_all add: clearTimeout_def receivers_def entry_of_def)

lemma fire_early:
  "find (\<lambda>x. fst x = t) (timers s) = Some (t, due, act) \<Longrightarrow> now < due \<Longrightarrow>
   fire_timer t picked now s = s"
  by (simp add: fire_timer_def)






lemma generateThought_fields:
  "start_calls (effects (generateThought th now s)) = start_calls (effects s)"
  "timers (generateThought th now s) = timers s"
  "nextTimer (generateThought th now s) = nextTimer s"
  "streamStatus (generateThought th now s) = streamStatus s"
  "generationInProgress (generateThought th now s) = generationInProgress s"
  by (simp_all add: generateThought_def Let_def broadcast_rest logger_def emit_def start_calls_append)

lemma generatePrompt_fields:
  "start_calls (effects (generatePrompt p now s)) = start_calls (effects s)"
  "timers (generatePrompt p now s) = timers s"
  "nextTimer (generatePrompt p now s) = nextTimer s"
  "lastPrompt (generatePrompt p now s) = p"
  "hasActiveFrames t (generatePrompt p now s) = hasActiveFrames t s"
  "streamStatus (generatePrompt p now s) = streamStatus s"
  "generationInProgress (generatePrompt p now s) = generationInProgress s"
  by (simp_all add: generatePrompt_def Let_def broadcast_rest logger_def emit_def start_calls_append
      hasActiveFrames_def)

lemma setTimeout_fields:
  "timers (setTimeout act d now s) = timers s @ [(nextTimer s, now + d, act)]"
  "effects (setTimeout act d now s) = effects s"
  "lastPrompt (setTimeout act d now s) = lastPrompt s"
  "streamStatus (setTimeout act d now s) = streamStatus s"
  "generationInProgress (setTimeout act d now s) = generationInProgress s"
  by (simp_all add: setTimeout_def)

text \<open>
  C7 (the scheduler's liveness check), as the code has it.  A tick makes no start-API call
  and changes no status: it broadcasts the thought and arms the prompt callback 2000 ms
  later.  The prompt callback makes no start-API call either: it stores and broadcasts the
  prompt, evaluates the liveness predicate once, at that instant, and only when it is false
  arms the request callback 2000 ms later.  The request callback does nothing before it is
  due; when it fires it calls \<open>requestGeneration(lastPrompt)\<close> without evaluating the
  liveness predicate again, so with no generation in progress the start API is called.
\<close>

theorem deferred_request:
  "start_calls (effects (processCycle th now s)) = start_calls (effects s) \<and>
   streamStatus (processCycle th now s) = streamStatus s \<and>
   timers (processCycle th now s) = timers s @ [(nextTimer s, now + 2000, CyclePrompt)] \<and>
   start_calls (effects (cycle_prompt p now s)) = start_calls (effects s) \<and>
   streamStatus (cycle_prompt p now s) = streamStatus s \<and>
   lastPrompt (cycle_prompt p now s) = p \<and>
   timers (cycle_prompt p now s) =
     (if hasActiveFrames now s then timers s else timers s @ [(nextTimer s, now + 2000, CycleRequest)]) \<and>
   (find (\<lambda>x. fst x = t) (timers s) = Some (t, due, CycleRequest) \<longrightarrow>
      (now < due \<longrightarrow> fire_timer t picked now s = s) \<and>
      (due \<le> now \<longrightarrow>
         fire_timer t picked now s = requestGeneration (lastPrompt s) now (clearTimeout t s) \<and>
         (\<not> generationInProgress s \<longrightarrow>
            start_calls (effects (fire_timer t picked now s)) = start_calls (effects s) @ [lastPrompt s])))"
proof (intro conjI impI)
  show "start_calls (effects (processCycle th now s)) = start_calls (effects s)"
    and "streamStatus (processCycle th now s) = streamStatus s"
    and "timers (processCycle th now s) = timers s @ [(nextTimer s, now + 2000, CyclePrompt)]"
    by (simp_all add: processCycle_def setTimeout_fields generateThought_fields)
next
  show "start_calls (effects (cycle_prompt p now s)) = start_calls (effects s)"
    and "streamStatus (cycle_prompt p now s) = streamStatus s"
    and "lastPrompt (cycle_prompt p now s) = p"
    and "timers (cycle_prompt p now s) =
     (if hasActiveFrames now s then timers s else timers s @ [(nextTimer s, now + 2000, CycleRequest)])"
    by (simp_all add: cycle_prompt_def Let_def setTimeout_fields generatePrompt_fields)
next
  assume "find (\<lambda>x. fst x = t) (timers s) = Some (t, due, CycleRequest)" and "now < due"
  then show "fire_timer t picked now s = s" by (rule fire_early)
next
  assume f: "find (\<lambda>x. fst x = t) (timers s) = Some (t, due, CycleRequest)" and d: "due \<le> now"
  then show e: "fire_timer t picked now s = requestGeneration (lastPrompt s) now (clearTimeout t s)"
    by (simp add: fire_timer_def Let_def cycle_request_def clearTimeout_def)
  assume "\<not> generationInProgress s"
  then have n: "\<not> generationInProgress (clearTimeout t s)" by (simp add: clearTimeout_def)
  from requestGeneration_accept [OF n, of "lastPrompt s" now]
  show "start_calls (effects (fire_timer t picked now s)) = start_calls (effects s) @ [lastPrompt s]"
    by (simp add: e clearTimeout_fields)
qed

lemma cycle_state_fields:
  "timers cycle_state = [(2, 5000, CycleRequest), (3, 13300, GenerationTimeout)]"
  "hasFrames cycle_state"
  "lastFrameTime cycle_state = 4900"
  "lastPrompt cycle_state = ''Dynamic movement in a forest''"
  "generationInProgress cycle_state = False"
  "streamStatus cycle_state = Active"
  "start_calls (effects cycle_state) = [''neon city'']"
  by (simp_all add: cycle_state_def cycle_run_def run_def initial_def sample_frame_def handler_defs)

text \<open>
  C7, witness: the request callback armed at 3000 is due at 5000; with frames live at 6000
  a prompt callback arms nothing.
\<close>

theorem deferred_request_witness:
  "find (\<lambda>x. fst x = 2) (timers cycle_state) = Some (2, 5000, CycleRequest) \<and>
   \<not> generationInProgress cycle_state \<and>
   fire_timer 2 [] 4999 cycle_state = cycle_state \<and>
   start_calls (effects (fire_timer 2 [] 5000 cycle_state)) = [''neon city'', ''Dynamic movement in a forest''] \<and>
   timers (cycle_prompt ''Dynamic movement in a forest'' 3000 initial) = [(0, 5000, CycleRequest)] \<and>
   timers (cycle_prompt ''Dynamic movement in a forest'' 6000 cycle_state) = timers cycle_state"
proof -
  have f: "find (\<lambda>x. fst x = 2) (timers cycle_state) = Some (2, 5000, CycleRequest)"
    by (simp add: cycle_state_fields)
  have n: "\<not> generationInProgress cycle_state" by (simp add: cycle_state_fields)
  have lt: "(4999::int) < 5000" and le: "(5000::int) \<le> 5000" by simp_all
  note early = deferred_request [of "[]" 4999 cycle_state "[]" 2 5000 "[]",
      THEN conjunct2, THEN conjunct2, THEN conjunct2, THEN conjunct2, THEN conjunct2,
      THEN conjunct2, THEN conjunct2, THEN mp, OF f, THEN conjunct1, THEN mp, OF lt]
  note due = deferred_request [of "[]" 5000 cycle_state "[]" 2 5000 "[]",
      THEN conjunct2, THEN conjunct2, THEN conjunct2, THEN conjunct2, THEN conjunct2,
      THEN conjunct2, THEN conjunct2, THEN mp, OF f, THEN conjunct2, THEN mp, OF le,
      THEN conjunct2, THEN mp, OF n]
  have a: "fire_timer 2 [] 4999 cycle_state = cycle_state" by (rule early)
  have b: "start_calls (effects (fire_timer 2 [] 5000 cycle_state)) =
      [''neon city'', ''Dynamic movement in a forest'']"
    using due by (simp add: cycle_state_fields)
  have i: "\<not> hasActiveFrames 3000 initial" "timers initial = []" "nextTimer initial = 0"
    by (simp_all add: hasActiveFrames_def initial_def)
  note first = deferred_request [of "[]" 3000 initial "''Dynamic movement in a forest''" 0 0 "[]",
      THEN conjunct2, THEN conjunct2, THEN conjunct2, THEN conjunct2, THEN conjunct2,
      THEN conjunct2, THEN conjunct1]
  have c: "timers (cycle_prompt ''Dynamic movement in a forest'' 3000 initial) = [(0, 5000, CycleRequest)]"
    using first by (simp add: i)
  have l: "hasActiveFrames 6000 cycle_state"
    by (simp add: hasActiveFrames_def cycle_state_fields)
  note live = deferred_request [of "[]" 6000 cycle_state "''Dynamic movement in a forest''" 0 0 "[]",
      THEN conjunct2, THEN conjunct2, THEN conjunct2, THEN conjunct2, THEN conjunct2,
      THEN conjunct2, THEN conjunct1]
  have d: "timers (cycle_prompt ''Dynamic movement in a forest'' 6000 cycle_state) = timers cycle_state"
    using live by (simp add: l)
  from f n a b c d show ?thesis by (intro conjI)
qed

text \<open>
  C7, counterexample to the claim as stated: the liveness test at 3000 fails and arms the
  request; a stream then connects and delivers a frame at 4900; at 5000 the frames are live
  and the request callback still calls the start API.
\<close>

theorem request_despite_live_frames:
  "find (\<lambda>x. fst x = 2) (timers cycle_state) = Some (2, 5000, CycleRequest) \<and>
   hasActiveFrames 5000 cycle_state \<and>
   start_calls (effects cycle_state) = [''neon city''] \<and>
   start_calls (effects (fire_timer 2 [] 5000 cycle_state)) =
     [''neon city'', ''Dynamic movement in a forest'']"
proof -
  have n: "\<not> generationInProgress (clearTimeout 2 cycle_state)"
    by (simp add: clearTimeout_def cycle_state_fields)
  have e: "fire_timer 2 [] 5000 cycle_state =
      requestGeneration (lastPrompt cycle_state) 5000 (clearTimeout 2 cycle_state)"
    by (simp add: fire_timer_def Let_def cycle_request_def clearTimeout_def cycle_state_fields)
  from requestGeneration_accept [OF n, of "lastPrompt cycle_state" 5000]
  show ?thesis
    by (simp add: e clearTimeout_fields cycle_state_fields hasActiveFrames_def)
qed

text \<open>
  C9, witness: on the Active stream a frame at time 1000 keeps the stream live at 5999 and no
  longer at 6000.
\<close>

theorem liveness_threshold_witness:
  "hasFrames (processIncomingFrame sample_frame 1000 active_state) \<and>
   currentStream active_state \<noteq> None \<and>
   hasActiveFrames 5999 (processIncomingFrame sample_frame 1000 active_state) \<and>
   \<not> hasActiveFrames 6000 (processIncomingFrame sample_frame 1000 active_state)"
proof -
  let ?s = "processIncomingFrame sample_frame 1000 active_state"
  have c: "currentStream active_state \<noteq> None" by (simp add: active_state_fields)
  have h: "hasFrames ?s" and l: "lastFrameTime ?s = 1000"
    using c by (auto simp: processIncomingFrame_def Let_def broadcast_rest)
  note flagged = liveness_threshold [of ?s 5999 sample_frame 0, THEN conjunct1, THEN mp, OF h]
  note framed = liveness_threshold [of active_state 0 sample_frame 1000,
      THEN conjunct2, THEN mp, OF c, THEN conjunct2]
  have a: "hasActiveFrames 5999 ?s" using flagged by (simp add: l)
  have b: "\<not> hasActiveFrames 6000 ?s" using framed by simp
  from h c a b show ?thesis by (intro conjI)
qed

end
